theory Spec2Isabelle
  imports Complex_Main
begin

section \<open>Data model of \<open>LineMatchingResult.h\<close>\<close>

text \<open>
  The header \<open>Src/Representations/Modeling/LineMatchingResult.h\<close> declares the aggregate
  \<open>LineMatchingResult\<close> with three nested streamable types. The C++ types \<open>double\<close> and
  \<open>float\<close> are embedded as \<^typ>\<open>real\<close> (exact arithmetic; rounding is not modelled), the C++
  \<open>int\<close> slots of the correspondence array as \<^typ>\<open>int\<close> (no arithmetic is done on them),
  \<open>std::vector\<close> as \<open>list\<close>.
\<close>

text \<open>\<open>Vector2d\<close> / \<open>Vector2f\<close>: a 2D vector with components \<open>x()\<close> and \<open>y()\<close>.\<close>

datatype Vector2d = Vector2d (vx: real) (vy: real)

text \<open>\<open>Pose2f\<close>: public members \<open>rotation\<close> (an angle in radians) and \<open>translation\<close>.\<close>

record Pose2f =
  rotation :: real
  translation :: Vector2d

text \<open>The anonymous enum of the class: the fixed size of the correspondence array.\<close>

definition maxNumberOfLineObservations :: nat where
  "maxNumberOfLineObservations = 8"

text \<open>
  \<open>FieldLine\<close>: members \<open>start\<close>, \<open>end\<close>, \<open>cameraHeight\<close>. (\<open>end\<close> is reserved in Isabelle, so
  the two endpoints carry the prefix \<open>fl_\<close>.)
\<close>

record FieldLine =
  fl_start :: Vector2d
  fl_end :: Vector2d
  cameraHeight :: real

text \<open>
  The three-argument constructor \<open>FieldLine(start_, end_, cameraHeight)\<close> stores its arguments.
\<close>

definition FieldLine_ctor :: "Vector2d \<Rightarrow> Vector2d \<Rightarrow> real \<Rightarrow> FieldLine" where
  "FieldLine_ctor start_arg end_arg h = \<lparr>fl_start = start_arg, fl_end = end_arg, cameraHeight = h\<rparr>"

text \<open>
  \<open>PoseHypothesis\<close>: members \<open>pose\<close> and \<open>int lineCorrespondences[maxNumberOfLineObservations]\<close>.
  The array is a list; that it has \<open>maxNumberOfLineObservations\<close> entries is an invariant
  established by the constructor and kept by \<open>setLineCorrespondences\<close>.
\<close>

record PoseHypothesis =
  pose :: Pose2f
  lineCorrespondences :: "int list"

text \<open>
  \<open>PoseHypothesisInterval\<close>: members \<open>start\<close>, \<open>end\<close> (boundary poses) and its own
  \<open>lineCorrespondences\<close> array; the members carry the prefix \<open>phi_\<close> here.
\<close>

record PoseHypothesisInterval =
  phi_start :: Pose2f
  phi_end :: Pose2f
  phi_lineCorrespondences :: "int list"

text \<open>
  The aggregate itself: the five streamed members in declaration order and the private member
  \<open>observationsSphericalCoords\<close>.
\<close>

record LineMatchingResult =
  fieldLines :: "FieldLine list"
  observations :: "FieldLine list"
  poseHypothesis :: "PoseHypothesis list"
  poseHypothesisIntervals :: "PoseHypothesisInterval list"
  onlyObservedOneFieldLine :: bool
  observationsSphericalCoords :: "FieldLine list"

section \<open>Constructors of the hypothesis types\<close>

text \<open>
  \<open>memset(lineCorrespondences, 0, sizeof(lineCorrespondences))\<close> writes the byte 0 over the whole
  array, so each of its \<open>int\<close> slots reads 0 afterwards.
\<close>

definition memset_zero :: "nat \<Rightarrow> int list" where
  "memset_zero n = replicate n 0"

text \<open>
  The default constructors run the \<open>memset\<close> and leave the pose members to the default
  constructor of \<open>Pose2f\<close>, which is not part of this header: the poses are parameters here.
\<close>

definition PoseHypothesis_ctor :: "Pose2f \<Rightarrow> PoseHypothesis" where
  "PoseHypothesis_ctor p =
     \<lparr>pose = p, lineCorrespondences = memset_zero maxNumberOfLineObservations\<rparr>"

definition PoseHypothesisInterval_ctor :: "Pose2f \<Rightarrow> Pose2f \<Rightarrow> PoseHypothesisInterval" where
  "PoseHypothesisInterval_ctor p q =
     \<lparr>phi_start = p, phi_end = q,
      phi_lineCorrespondences = memset_zero maxNumberOfLineObservations\<rparr>"

text \<open>
  \<open>setLineCorrespondences(const int otherLineCorrespondences[])\<close>: the loop
  \<open>for (i = 0; i < maxNumberOfLineObservations; i++) lineCorrespondences[i] = other[i]\<close>.
  The loop counter runs upwards; \<open>setLineCorrespondences_loop i n\<close> is the loop from counter
  \<open>i\<close> with \<open>n\<close> iterations left. Reading the argument beyond its end is undefined behaviour
  in C++ and is the value \<open>None\<close> here.
\<close>

fun setLineCorrespondences_loop :: "nat \<Rightarrow> nat \<Rightarrow> int list \<Rightarrow> int list \<Rightarrow> int list option" where
  "setLineCorrespondences_loop i 0 other lc = Some lc"
| "setLineCorrespondences_loop i (Suc n) other lc =
     (if i < length other
      then setLineCorrespondences_loop (Suc i) n other (lc[i := other ! i])
      else None)"

definition setLineCorrespondences :: "int list \<Rightarrow> PoseHypothesis \<Rightarrow> PoseHypothesis option" where
  "setLineCorrespondences other h =
     (case setLineCorrespondences_loop 0 maxNumberOfLineObservations other (lineCorrespondences h) of
        None \<Rightarrow> None
      | Some lc \<Rightarrow> Some (h\<lparr>lineCorrespondences := lc\<rparr>))"

text \<open>
  Following the words of the specification ("slot i holds the index of the map line matched to
  observation i"): the map line that a slot value denotes in the ordered field line map of the
  aggregate, if any.
\<close>

definition correspondingMapLine_spec :: "LineMatchingResult \<Rightarrow> int \<Rightarrow> FieldLine option" where
  "correspondingMapLine_spec s v =
     (if 0 \<le> v \<and> nat v < length (fieldLines s) then Some (fieldLines s ! nat v) else None)"

section \<open>The aggregate: \<open>reset\<close> and the queries\<close>

text \<open>
  \<open>reset()\<close>: four \<open>clear()\<close> calls and one assignment, in the order of the source. The member
  \<open>fieldLines\<close> is not touched.
\<close>

definition reset :: "LineMatchingResult \<Rightarrow> LineMatchingResult" where
  "reset s =
     s\<lparr>observations := [],
       observationsSphericalCoords := [],
       poseHypothesis := [],
       poseHypothesisIntervals := [],
       onlyObservedOneFieldLine := False\<rparr>"

text \<open>The three \<open>const\<close> queries on the sizes of the hypothesis vectors.\<close>

definition containsMatches :: "LineMatchingResult \<Rightarrow> bool" where
  "containsMatches s \<longleftrightarrow> length (poseHypothesis s) > 0 \<or> length (poseHypothesisIntervals s) > 0"

definition containsUniqueMatches :: "LineMatchingResult \<Rightarrow> bool" where
  "containsUniqueMatches s \<longleftrightarrow> length (poseHypothesis s) > 0"

definition containsNonUniqueMatches :: "LineMatchingResult \<Rightarrow> bool" where
  "containsNonUniqueMatches s \<longleftrightarrow> length (poseHypothesisIntervals s) > 0"

text \<open>
  A call of a \<open>const\<close> member function in state-passing form: the result of the query together
  with the object after the call, which a \<open>const\<close> member function (the class has no
  \<open>mutable\<close> member) leaves as it was.
\<close>

definition call_const :: "('s \<Rightarrow> 'a) \<Rightarrow> 's \<Rightarrow> 'a \<times> 's" where
  "call_const q s = (q s, s)"

section \<open>The spherical observation model\<close>

text \<open>
  Modelled from the spec: \<open>atan2\<close> of the C++ standard library and the members \<open>norm()\<close>,
  \<open>angle()\<close>, \<open>rotate()\<close>, \<open>operator-\<close> and \<open>cast<double>()\<close> of the vector type
  (\<open>Tools/Math/Eigen.h\<close>) are not among the sources. The specification calls for "the
  standard 2D polar decomposition of the relative point" and for angles in radians:
  \<open>atan2 y x\<close> is the two-argument arc tangent over the reals with its value in
  \<open>(-\<pi>, \<pi>]\<close> and \<open>atan2 0 0 = 0\<close>, \<open>norm_v\<close> the Euclidean norm, \<open>angle_v\<close> the angle
  \<open>atan2 y x\<close> of the vector, \<open>rotate_v a\<close> the counter-clockwise rotation by \<open>a\<close>. The
  conversion from \<open>float\<close> to \<open>double\<close> is exact, hence the identity on \<^typ>\<open>real\<close>.
\<close>

definition atan2 :: "real \<Rightarrow> real \<Rightarrow> real" where
  "atan2 y x =
     (if 0 < x then arctan (y / x)
      else if x < 0 then (if 0 \<le> y then arctan (y / x) + pi else arctan (y / x) - pi)
      else if 0 < y then pi / 2
      else if y < 0 then - (pi / 2)
      else 0)"

definition norm_v :: "Vector2d \<Rightarrow> real" where
  "norm_v p = sqrt ((vx p)\<^sup>2 + (vy p)\<^sup>2)"

definition angle_v :: "Vector2d \<Rightarrow> real" where
  "angle_v p = atan2 (vy p) (vx p)"

definition rotate_v :: "real \<Rightarrow> Vector2d \<Rightarrow> Vector2d" where
  "rotate_v a p = Vector2d (cos a * vx p - sin a * vy p) (sin a * vx p + cos a * vy p)"

definition minus_v :: "Vector2d \<Rightarrow> Vector2d \<Rightarrow> Vector2d" where
  "minus_v p q = Vector2d (vx p - vx q) (vy p - vy q)"

definition plus_v :: "Vector2d \<Rightarrow> Vector2d \<Rightarrow> Vector2d" where
  "plus_v p q = Vector2d (vx p + vx q) (vy p + vy q)"

definition uminus_v :: "Vector2d \<Rightarrow> Vector2d" where
  "uminus_v p = Vector2d (- vx p) (- vy p)"

definition cast_double :: "Vector2d \<Rightarrow> Vector2d" where
  "cast_double p = p"

text \<open>
  The four overloads of \<open>getSphericalCoordinatesForPointObservation\<close>, in the order of the
  header. First the overload for a point in relative coordinates: \<open>x()\<close> of the result is the
  vertical angle, \<open>y()\<close> the horizontal angle.
\<close>

definition getSphericalCoordinatesForPointObservation :: "Vector2d \<Rightarrow> real \<Rightarrow> Vector2d" where
  "getSphericalCoordinatesForPointObservation pointInRelativeCoords h =
     Vector2d (atan2 h (norm_v pointInRelativeCoords)) (angle_v pointInRelativeCoords)"

text \<open>
  The overload for a pose and a point in absolute coordinates. Its local variable
  \<open>pointInRelativeCoords\<close> is initialised with \<open>pointInAbsoluteCoords - pose.translation\<close>
  and then rotated in place by \<open>-pose.rotation\<close>; the function of that name is the value of the
  variable after these two statements.
\<close>

definition pointInRelativeCoords :: "Pose2f \<Rightarrow> Vector2d \<Rightarrow> Vector2d" where
  "pointInRelativeCoords pose_arg pointInAbsoluteCoords =
     rotate_v (- rotation pose_arg)
       (minus_v pointInAbsoluteCoords (cast_double (translation pose_arg)))"

definition getSphericalCoordinatesForPointObservation_pose ::
    "Pose2f \<Rightarrow> Vector2d \<Rightarrow> real \<Rightarrow> Vector2d" where
  "getSphericalCoordinatesForPointObservation_pose pose_arg pointInAbsoluteCoords h =
     getSphericalCoordinatesForPointObservation
       (pointInRelativeCoords pose_arg pointInAbsoluteCoords) h"

text \<open>The overload for a field line in relative coordinates.\<close>

definition getSphericalCoordinatesForPointObservation_line :: "FieldLine \<Rightarrow> FieldLine" where
  "getSphericalCoordinatesForPointObservation_line fieldLineInRelativeCoords =
     \<lparr>fl_start = getSphericalCoordinatesForPointObservation
        (fl_start fieldLineInRelativeCoords) (cameraHeight fieldLineInRelativeCoords),
      fl_end = getSphericalCoordinatesForPointObservation
        (fl_end fieldLineInRelativeCoords) (cameraHeight fieldLineInRelativeCoords),
      cameraHeight = cameraHeight fieldLineInRelativeCoords\<rparr>"

text \<open>The overload for a pose and a field line in absolute coordinates.\<close>

definition getSphericalCoordinatesForPointObservation_pose_line ::
    "Pose2f \<Rightarrow> FieldLine \<Rightarrow> FieldLine" where
  "getSphericalCoordinatesForPointObservation_pose_line pose_arg fieldLineInAbsoluteCoords =
     \<lparr>fl_start = getSphericalCoordinatesForPointObservation_pose pose_arg
        (fl_start fieldLineInAbsoluteCoords) (cameraHeight fieldLineInAbsoluteCoords),
      fl_end = getSphericalCoordinatesForPointObservation_pose pose_arg
        (fl_end fieldLineInAbsoluteCoords) (cameraHeight fieldLineInAbsoluteCoords),
      cameraHeight = cameraHeight fieldLineInAbsoluteCoords\<rparr>"

text \<open>
  The words of the specification, to compare the code with. The planar distance of a point is
  its Euclidean norm, its bearing the polar angle of the point vector: the argument of the
  complex number with the point's coordinates, in \<open>(-\<pi>, \<pi>]\<close> and 0 for the origin.
\<close>

definition planarDistance_spec :: "Vector2d \<Rightarrow> real" where
  "planarDistance_spec p = cmod (Complex (vx p) (vy p))"

definition bearing_spec :: "Vector2d \<Rightarrow> real" where
  "bearing_spec p = Arg (Complex (vx p) (vy p))"

text \<open>
  "Translate by the negative pose position, then rotate by the negative pose heading", and
  its inverse, "rotate by the pose heading, then translate by the pose position".
\<close>

definition translate_spec :: "Vector2d \<Rightarrow> Vector2d \<Rightarrow> Vector2d" where
  "translate_spec t p = plus_v p t"

definition relativeToPose_spec :: "Pose2f \<Rightarrow> Vector2d \<Rightarrow> Vector2d" where
  "relativeToPose_spec pose_arg p =
     rotate_v (- rotation pose_arg) (translate_spec (uminus_v (translation pose_arg)) p)"

definition inversePose_spec :: "Pose2f \<Rightarrow> Vector2d \<Rightarrow> Vector2d" where
  "inversePose_spec pose_arg q =
     translate_spec (translation pose_arg) (rotate_v (rotation pose_arg) q)"

text \<open>A field line with both endpoints mapped by the same function, its camera height kept.\<close>

definition mapEndpoints_spec :: "(Vector2d \<Rightarrow> Vector2d) \<Rightarrow> FieldLine \<Rightarrow> FieldLine" where
  "mapEndpoints_spec f l = l\<lparr>fl_start := f (fl_start l), fl_end := f (fl_end l)\<rparr>"

section \<open>The correspondence search\<close>

text \<open>
  Modelled from the spec: the bodies of \<open>calculateObservationsSphericalCoords\<close> and
  \<open>getCorrespondencesForLocalizationHypothesis\<close> are not among the sources; the header only
  declares them (lines 123 to 132). The definitions of this section follow sections 4.1, 4.2
  and 6 of the specification.

  The matrices \<open>Matrix3d\<close> and \<open>Matrix2d\<close> are given by their entries. The specification leaves
  the analytic form of the Gaussian likelihood open (section 9), so the likelihood of an
  observed spherical line under an expected one, given the pose covariance and the measurement
  precision, is a parameter of the search.
\<close>

type_synonym Matrix2d = "nat \<Rightarrow> nat \<Rightarrow> real"

type_synonym Matrix3d = "nat \<Rightarrow> nat \<Rightarrow> real"

type_synonym likelihood = "Matrix3d \<Rightarrow> Matrix2d \<Rightarrow> FieldLine \<Rightarrow> FieldLine \<Rightarrow> real"

text \<open>
  Modelled from the spec: \<open>calculateObservationsSphericalCoords\<close>. The cache "is derivable
  purely from \<open>observations\<close>": it is the projection of every observation (section 4.1), and
  replaces the former cache.
\<close>

definition calculateObservationsSphericalCoords :: "LineMatchingResult \<Rightarrow> LineMatchingResult" where
  "calculateObservationsSphericalCoords s =
     s\<lparr>observationsSphericalCoords :=
         map getSphericalCoordinatesForPointObservation_line (observations s)\<rparr>"

text \<open>
  Modelled from the spec: step 2 of section 4.2, "both orderings must be tried and the better
  one kept": the likelihood of a correspondence is the larger of the likelihoods for the
  expected line as it is and with its endpoints swapped.
\<close>

definition swapEndpoints :: "FieldLine \<Rightarrow> FieldLine" where
  "swapEndpoints l = l\<lparr>fl_start := fl_end l, fl_end := fl_start l\<rparr>"

definition correspondenceLikelihood ::
    "likelihood \<Rightarrow> Matrix3d \<Rightarrow> Matrix2d \<Rightarrow> FieldLine \<Rightarrow> FieldLine \<Rightarrow> real" where
  "correspondenceLikelihood lik cov prec observed expected =
     max (lik cov prec observed expected) (lik cov prec observed (swapEndpoints expected))"

text \<open>
  Modelled from the spec: steps 1 and 2. The score of observation \<open>i\<close> and map line \<open>j\<close>: the
  map line is expressed relative to the candidate pose and projected, and compared with the
  cached projection of the observation.
\<close>

definition scoreTable ::
    "likelihood \<Rightarrow> Pose2f \<Rightarrow> Matrix3d \<Rightarrow> Matrix2d \<Rightarrow> FieldLine list \<Rightarrow> FieldLine list \<Rightarrow>
     nat \<Rightarrow> nat \<Rightarrow> real" where
  "scoreTable lik pose_arg cov prec sphericalObservations mapLines i j =
     correspondenceLikelihood lik cov prec (sphericalObservations ! i)
       (getSphericalCoordinatesForPointObservation_pose_line pose_arg (mapLines ! j))"

text \<open>All pairs of an observation index below \<open>n\<close> and a map line index below \<open>m\<close>, by rows.\<close>

definition candidates :: "nat \<Rightarrow> nat \<Rightarrow> (nat \<times> nat) list" where
  "candidates n m = concat (map (\<lambda>i. map (\<lambda>j. (i, j)) [0..<m]) [0..<n])"

text \<open>
  Modelled from the spec: step 4, the pair of highest likelihood among the remaining ones,
  with the "stable, deterministic tie-break: lower observation index wins ties": of two pairs
  of equal score the one that stands earlier in the list stays.
\<close>

fun bestCandidate :: "(nat \<Rightarrow> nat \<Rightarrow> real) \<Rightarrow> (nat \<times> nat) list \<Rightarrow> (nat \<times> nat) option" where
  "bestCandidate score [] = None"
| "bestCandidate score (c # cs) =
     (case bestCandidate score cs of
        None \<Rightarrow> Some c
      | Some d \<Rightarrow> if score (fst c) (snd c) < score (fst d) (snd d) then Some d else Some c)"

text \<open>
  Modelled from the spec: steps 3 and 4. The pair of highest likelihood is assigned first, if
  its likelihood exceeds the threshold; the search goes on with the remaining observations
  against the remaining map lines. When the best remaining pair does not exceed the threshold,
  no remaining pair does, and the remaining observations stay unmatched.
\<close>

function greedyAssign ::
    "real \<Rightarrow> (nat \<Rightarrow> nat \<Rightarrow> real) \<Rightarrow> (nat \<times> nat) list \<Rightarrow> (nat \<times> nat) list" where
  "greedyAssign thr score cands =
     (case bestCandidate score cands of
        None \<Rightarrow> []
      | Some c \<Rightarrow>
          if thr < score (fst c) (snd c)
          then c # greedyAssign thr score
                 (filter (\<lambda>d. fst d \<noteq> fst c \<and> snd d \<noteq> snd c) cands)
          else [])"
  by pat_completeness auto
termination
proof (relation "measure (\<lambda>(thr, score, cands). length cands)")
  show "wf (measure (\<lambda>(thr :: real, score :: nat \<Rightarrow> nat \<Rightarrow> real, cands :: (nat \<times> nat) list).
      length cands))"
    by simp
next
  fix thr :: real and score :: "nat \<Rightarrow> nat \<Rightarrow> real" and cands c
  assume best: "bestCandidate score cands = Some c"
  have mem: "d \<in> set xs" if "bestCandidate score xs = Some d" for xs d
    using that by (induction xs arbitrary: d) (auto split: option.splits if_splits)
  have "c \<in> set cands"
    using mem [OF best] .
  then have "length (filter (\<lambda>d. fst d \<noteq> fst c \<and> snd d \<noteq> snd c) cands) < length cands"
    by (intro length_filter_less [of c]) simp_all
  then show "((thr, score, filter (\<lambda>d. fst d \<noteq> fst c \<and> snd d \<noteq> snd c) cands),
      (thr, score, cands)) \<in> measure (\<lambda>(thr, score, cands). length cands)"
    by simp
qed

declare greedyAssign.simps [simp del]

text \<open>
  Modelled from the spec: \<open>getCorrespondencesForLocalizationHypothesis\<close> (sections 4.2 and 6).
  It "returns whether at least one correspondence was accepted" and "fills
  \<open>outCorrespondences\<close> with accepted (observed, map) pairs in matched order". The former
  content of the out-parameter and the two flags, which affect "only diagnostic behavior, not
  the result", are arguments of the function all the same. Each observation goes with its
  cached projection; observations beyond the capacity are cut off (section 7, "truncate
  silently at the fixed capacity"). (The header declares the out-parameter as a vector of
  \<open>FieldLine\<close>; the pairs are those of the specification.)
\<close>

definition getCorrespondencesForLocalizationHypothesis ::
    "likelihood \<Rightarrow> LineMatchingResult \<Rightarrow> Pose2f \<Rightarrow> Matrix3d \<Rightarrow> real \<Rightarrow> Matrix2d \<Rightarrow>
     (FieldLine \<times> FieldLine) list \<Rightarrow> bool \<Rightarrow> bool \<Rightarrow> bool \<times> (FieldLine \<times> FieldLine) list" where
  "getCorrespondencesForLocalizationHypothesis lik s localizationHypothesis poseCovariance
       likelihoodThreshold sphericalPointMeasurementCovariance_inv
       correspondencesForObservations displayWarning requestedByLocalization =
     (let cached = take maxNumberOfLineObservations
                     (zip (observations s) (observationsSphericalCoords s));
          score = scoreTable lik localizationHypothesis poseCovariance
                    sphericalPointMeasurementCovariance_inv (map snd cached) (fieldLines s);
          accepted = greedyAssign likelihoodThreshold score
                       (candidates (length cached) (length (fieldLines s)))
      in (accepted \<noteq> [], map (\<lambda>c. (fst (cached ! fst c), fieldLines s ! snd c)) accepted))"

text \<open>
  A frame to run the search on: two map lines, two observations, and a likelihood that looks
  at the camera heights only, so that the scores are rational numbers.
\<close>

definition example_likelihood :: likelihood where
  "example_likelihood cov prec observed expected =
     1 / (1 + (cameraHeight observed - cameraHeight expected)\<^sup>2)"

definition example_frame :: LineMatchingResult where
  "example_frame = calculateObservationsSphericalCoords
     \<lparr>fieldLines = [FieldLine_ctor (Vector2d 0 0) (Vector2d 1 0) 1,
                    FieldLine_ctor (Vector2d 0 0) (Vector2d 0 1) 3],
      observations = [FieldLine_ctor (Vector2d 1 1) (Vector2d 2 1) 1,
                      FieldLine_ctor (Vector2d 1 1) (Vector2d 1 2) 2],
      poseHypothesis = [], poseHypothesisIntervals = [],
      onlyObservedOneFieldLine = False, observationsSphericalCoords = []\<rparr>"

definition example_pose :: Pose2f where
  "example_pose = \<lparr>rotation = 0, translation = Vector2d 0 0\<rparr>"

section \<open>Properties of \<open>reset\<close> and the queries\<close>

text \<open>
  C1, as stated, lists the field line map among the sequences that \<open>reset()\<close> clears. The code
  keeps it: a state whose map holds one line still holds it after \<open>reset()\<close>.
\<close>

theorem reset_keeps_fieldLines_counterexample:
  "fieldLines (reset
     \<lparr>fieldLines = [\<lparr>fl_start = Vector2d 0 0, fl_end = Vector2d 1 0, cameraHeight = 0\<rparr>],
      observations = [], poseHypothesis = [], poseHypothesisIntervals = [],
      onlyObservedOneFieldLine = False, observationsSphericalCoords = []\<rparr>) \<noteq> []"
  by (simp add: reset_def)

text \<open>
  C1 (amended): for every prior state, \<open>reset()\<close> empties \<open>observations\<close>, the cached spherical
  projections, the unique-hypothesis list and the interval list, and sets
  \<open>onlyObservedOneFieldLine\<close> to false; so afterwards \<open>containsMatches()\<close> is false and
  \<open>observations\<close> is empty, whatever the prior frame held. (The field line map is not among
  the cleared sequences.)
\<close>

theorem reset_clears_frame_state:
  "observations (reset s) = [] \<and>
   observationsSphericalCoords (reset s) = [] \<and>
   poseHypothesis (reset s) = [] \<and>
   poseHypothesisIntervals (reset s) = [] \<and>
   onlyObservedOneFieldLine (reset s) = False \<and>
   containsMatches (reset s) = False"
  by (simp add: reset_def containsMatches_def)

text \<open>
  C5: in every state, \<open>containsMatches()\<close> is true exactly when \<open>poseHypothesis\<close> or
  \<open>poseHypothesisIntervals\<close> is non-empty, \<open>containsUniqueMatches()\<close> exactly when
  \<open>poseHypothesis\<close> is non-empty, \<open>containsNonUniqueMatches()\<close> exactly when
  \<open>poseHypothesisIntervals\<close> is non-empty; and a call of any of the three leaves the state as
  it was.
\<close>

theorem queries_characterised:
  "(containsMatches s \<longleftrightarrow> poseHypothesis s \<noteq> [] \<or> poseHypothesisIntervals s \<noteq> []) \<and>
   (containsUniqueMatches s \<longleftrightarrow> poseHypothesis s \<noteq> []) \<and>
   (containsNonUniqueMatches s \<longleftrightarrow> poseHypothesisIntervals s \<noteq> []) \<and>
   snd (call_const containsMatches s) = s \<and>
   snd (call_const containsUniqueMatches s) = s \<and>
   snd (call_const containsNonUniqueMatches s) = s"
  by (simp add: containsMatches_def containsUniqueMatches_def containsNonUniqueMatches_def
      call_const_def)

theorem queries_characterised_witness:
  "containsMatches
     \<lparr>fieldLines = [], observations = [],
      poseHypothesis = [PoseHypothesis_ctor \<lparr>rotation = 0, translation = Vector2d 0 0\<rparr>],
      poseHypothesisIntervals = [], onlyObservedOneFieldLine = False,
      observationsSphericalCoords = []\<rparr> \<and>
   containsUniqueMatches
     \<lparr>fieldLines = [], observations = [],
      poseHypothesis = [PoseHypothesis_ctor \<lparr>rotation = 0, translation = Vector2d 0 0\<rparr>],
      poseHypothesisIntervals = [], onlyObservedOneFieldLine = False,
      observationsSphericalCoords = []\<rparr> \<and>
   \<not> containsNonUniqueMatches
     \<lparr>fieldLines = [], observations = [],
      poseHypothesis = [PoseHypothesis_ctor \<lparr>rotation = 0, translation = Vector2d 0 0\<rparr>],
      poseHypothesisIntervals = [], onlyObservedOneFieldLine = False,
      observationsSphericalCoords = []\<rparr>"
  using queries_characterised [of
     "\<lparr>fieldLines = [], observations = [],
      poseHypothesis = [PoseHypothesis_ctor \<lparr>rotation = 0, translation = Vector2d 0 0\<rparr>],
      poseHypothesisIntervals = [], onlyObservedOneFieldLine = False,
      observationsSphericalCoords = []\<rparr>"]
  by simp

text \<open>
  C10: for every prior state, \<open>reset()\<close> leaves \<open>fieldLines\<close> unchanged. It writes only
  \<open>observations\<close>, \<open>observationsSphericalCoords\<close>, \<open>poseHypothesis\<close>,
  \<open>poseHypothesisIntervals\<close> and \<open>onlyObservedOneFieldLine\<close>: the state after \<open>reset()\<close> is
  the prior state with exactly these five members overwritten, so every other member keeps
  its value.
\<close>

theorem reset_frame:
  "fieldLines (reset s) = fieldLines s \<and>
   reset s = s\<lparr>observations := observations (reset s),
               observationsSphericalCoords := observationsSphericalCoords (reset s),
               poseHypothesis := poseHypothesis (reset s),
               poseHypothesisIntervals := poseHypothesisIntervals (reset s),
               onlyObservedOneFieldLine := onlyObservedOneFieldLine (reset s)\<rparr>"
  by (simp add: reset_def)

section \<open>The correspondence arrays\<close>

lemma setLineCorrespondences_loop_length:
  "setLineCorrespondences_loop i n other lc = Some lc' \<Longrightarrow> length lc' = length lc"
  by (induction i n other lc rule: setLineCorrespondences_loop.induct)
     (auto split: if_splits)

text \<open>
  The loop copies the slots from its counter on and leaves the slots before it alone; it fails
  exactly when the argument is too short.
\<close>

lemma setLineCorrespondences_loop_copies:
  "setLineCorrespondences_loop i n other lc = Some lc' \<Longrightarrow> i + n \<le> length lc \<Longrightarrow>
   lc' = take i lc @ take n (drop i other) @ drop (i + n) lc"
proof (induction i n other lc arbitrary: lc' rule: setLineCorrespondences_loop.induct)
  case (1 i other lc)
  then show ?case by simp
next
  case (2 i n other lc)
  from "2.prems" have i: "i < length other" and il: "i < length lc"
    and run: "setLineCorrespondences_loop (Suc i) n other (lc[i := other ! i]) = Some lc'"
    by (auto split: if_splits)
  from "2.IH" [OF i run] "2.prems"(2)
  have "lc' = take (Suc i) (lc[i := other ! i]) @ take n (drop (Suc i) other) @
      drop (Suc i + n) (lc[i := other ! i])"
    by simp
  moreover have "take (Suc i) (lc[i := other ! i]) = take i lc @ [other ! i]"
    using il by (simp add: take_Suc_conv_app_nth)
  moreover have "take (Suc n) (drop i other) = other ! i # take n (drop (Suc i) other)"
    using i by (simp add: Cons_nth_drop_Suc [symmetric])
  ultimately show ?case
    by simp
qed

lemma setLineCorrespondences_loop_defined:
  "setLineCorrespondences_loop i n other lc \<noteq> None \<longleftrightarrow> i + n \<le> length other \<or> n = 0"
  by (induction i n other lc rule: setLineCorrespondences_loop.induct) auto

lemma setLineCorrespondences_copies:
  assumes "length (lineCorrespondences h) = maxNumberOfLineObservations"
    and "setLineCorrespondences other h = Some h'"
  shows "lineCorrespondences h' = take maxNumberOfLineObservations other"
proof -
  from assms(2) obtain lc' where
    run: "setLineCorrespondences_loop 0 maxNumberOfLineObservations other
            (lineCorrespondences h) = Some lc'"
    and h': "h' = h\<lparr>lineCorrespondences := lc'\<rparr>"
    by (auto simp: setLineCorrespondences_def split: option.splits)
  from setLineCorrespondences_loop_copies [OF run] assms(1)
  show ?thesis
    by (simp add: h')
qed

lemma setLineCorrespondences_length:
  "setLineCorrespondences other h = Some h' \<Longrightarrow>
   length (lineCorrespondences h') = length (lineCorrespondences h)"
  by (auto simp: setLineCorrespondences_def setLineCorrespondences_loop_length
      split: option.splits)

text \<open>
  C9: a default-constructed \<open>PoseHypothesis\<close> and a default-constructed
  \<open>PoseHypothesisInterval\<close> hold 0 in each of their 8 slots; and the value 0, read as an index
  into the ordered field line map, denotes the first map line whenever the map has one.
\<close>

theorem default_constructed_slots_zero:
  "lineCorrespondences (PoseHypothesis_ctor p) = [0, 0, 0, 0, 0, 0, 0, 0] \<and>
   phi_lineCorrespondences (PoseHypothesisInterval_ctor p q) = [0, 0, 0, 0, 0, 0, 0, 0] \<and>
   correspondingMapLine_spec s 0 = (case fieldLines s of [] \<Rightarrow> None | l # ls \<Rightarrow> Some l)"
  by (simp add: PoseHypothesis_ctor_def PoseHypothesisInterval_ctor_def memset_zero_def
      maxNumberOfLineObservations_def correspondingMapLine_spec_def numeral_eq_Suc
      split: list.split)

section \<open>The spherical observation model: polar decomposition\<close>

lemma sqrt_one_plus_sq_nonzero: "sqrt (1 + (t::real)\<^sup>2) \<noteq> 0"
proof -
  have "0 < 1 + t\<^sup>2" by (simp add: add_pos_nonneg)
  then have "0 < sqrt (1 + t\<^sup>2)" by (simp only: real_sqrt_gt_zero)
  then show ?thesis by simp
qed

lemma sqrt_sum_squares_factor:
  fixes x y :: real
  assumes "x \<noteq> 0"
  shows "sqrt (x\<^sup>2 + y\<^sup>2) = \<bar>x\<bar> * sqrt (1 + (y / x)\<^sup>2)"
proof -
  have "x\<^sup>2 + y\<^sup>2 = x\<^sup>2 * (1 + (y / x)\<^sup>2)"
    using assms by (simp add: field_simps power2_eq_square)
  then show ?thesis
    by (simp add: real_sqrt_mult)
qed

lemma atan2_cos: "sqrt (x\<^sup>2 + y\<^sup>2) * cos (atan2 y x) = x"
proof -
  note nz = sqrt_one_plus_sq_nonzero [of "y / x"]
  consider "0 < x" | "x < 0" | "x = 0" by linarith
  then show ?thesis
  proof cases
    case 1
    then have "atan2 y x = arctan (y / x)" by (simp add: atan2_def)
    then show ?thesis
      using 1 nz sqrt_sum_squares_factor [of x y] by (simp add: cos_arctan)
  next
    case 2
    then have "cos (atan2 y x) = - cos (arctan (y / x))" by (simp add: atan2_def)
    then show ?thesis
      using 2 nz sqrt_sum_squares_factor [of x y] by (simp add: cos_arctan)
  next
    case 3
    then show ?thesis
      by (simp add: atan2_def)
  qed
qed

lemma atan2_sin: "sqrt (x\<^sup>2 + y\<^sup>2) * sin (atan2 y x) = y"
proof -
  note nz = sqrt_one_plus_sq_nonzero [of "y / x"]
  consider "0 < x" | "x < 0" | "x = 0" by linarith
  then show ?thesis
  proof cases
    case 1
    then have "atan2 y x = arctan (y / x)" by (simp add: atan2_def)
    then show ?thesis
      using 1 nz sqrt_sum_squares_factor [of x y] by (simp add: sin_arctan)
  next
    case 2
    then have "sin (atan2 y x) = - sin (arctan (y / x))" by (simp add: atan2_def)
    then show ?thesis
      using 2 nz sqrt_sum_squares_factor [of x y] by (simp add: sin_arctan)
  next
    case 3
    then show ?thesis
      by (simp add: atan2_def)
  qed
qed

lemma atan2_range: "- pi < atan2 y x \<and> atan2 y x \<le> pi"
proof -
  have lo: "- (pi / 2) < arctan (y / x)" by (rule arctan_lbound)
  have hi: "arctan (y / x) < pi / 2" by (rule arctan_ubound)
  consider "0 < x" | "x < 0" "0 \<le> y" | "x < 0" "y < 0"
    | "x = 0" "0 < y" | "x = 0" "y < 0" | "x = 0" "y = 0" by linarith
  then show ?thesis
  proof cases
    case 1
    then have "atan2 y x = arctan (y / x)" by (simp add: atan2_def)
    with lo hi pi_gt_zero show ?thesis by linarith
  next
    case 2
    then have "y / x \<le> 0" by (simp add: divide_nonneg_neg)
    then have "arctan (y / x) \<le> 0" by (simp only: arctan_le_zero_iff)
    moreover from 2 have "atan2 y x = arctan (y / x) + pi" by (simp add: atan2_def)
    ultimately show ?thesis using lo pi_gt_zero by linarith
  next
    case 3
    then have "0 < y / x" by (simp add: divide_neg_neg)
    then have "0 < arctan (y / x)" by (simp only: zero_less_arctan_iff)
    moreover from 3 have "atan2 y x = arctan (y / x) - pi" by (simp add: atan2_def)
    ultimately show ?thesis using hi pi_gt_zero by linarith
  next
    case 4
    then have "atan2 y x = pi / 2" by (simp add: atan2_def)
    with pi_gt_zero show ?thesis by linarith
  next
    case 5
    then have "atan2 y x = - (pi / 2)" by (simp add: atan2_def)
    with pi_gt_zero show ?thesis by linarith
  next
    case 6
    then have "atan2 y x = 0" by (simp add: atan2_def)
    with pi_gt_zero show ?thesis by linarith
  qed
qed

text \<open>With a non-negative second argument the angle lies in the right half plane.\<close>

lemma atan2_right_half_plane:
  assumes "0 \<le> x"
  shows "- (pi / 2) \<le> atan2 y x \<and> atan2 y x \<le> pi / 2"
proof -
  have lo: "- (pi / 2) < arctan (y / x)" by (rule arctan_lbound)
  have hi: "arctan (y / x) < pi / 2" by (rule arctan_ubound)
  consider "0 < x" | "x = 0" "0 < y" | "x = 0" "y < 0" | "x = 0" "y = 0"
    using assms by linarith
  then show ?thesis
  proof cases
    case 1
    then have "atan2 y x = arctan (y / x)" by (simp add: atan2_def)
    with lo hi show ?thesis by linarith
  next
    case 2
    then have "atan2 y x = pi / 2" by (simp add: atan2_def)
    with pi_gt_zero show ?thesis by linarith
  next
    case 3
    then have "atan2 y x = - (pi / 2)" by (simp add: atan2_def)
    with pi_gt_zero show ?thesis by linarith
  next
    case 4
    then have "atan2 y x = 0" by (simp add: atan2_def)
    with pi_gt_zero show ?thesis by linarith
  qed
qed

text \<open>The angle of the code is the argument of the complex number \<open>x + iy\<close>.\<close>

lemma atan2_Arg: "atan2 y x = Arg (Complex x y)"
proof (cases "Complex x y = 0")
  case True
  then have "x = 0" "y = 0" by (simp_all add: Complex_eq_0)
  then show ?thesis using Arg_zero by (simp add: atan2_def zero_complex.code)
next
  case False
  have n: "cmod (Complex x y) = sqrt (x\<^sup>2 + y\<^sup>2)"
    by (simp add: cmod_def)
  have pos: "sqrt (x\<^sup>2 + y\<^sup>2) \<noteq> 0" using False n by (metis norm_eq_zero)
  have "sgn (Complex x y) = cis (atan2 y x)"
    using atan2_cos [of x y] atan2_sin [of x y] pos
    by (simp add: complex_eq_iff sgn_eq n cis.ctr field_simps)
  then show ?thesis
    using cis_Arg_unique [of "Complex x y" "atan2 y x"] atan2_range [of y x] by simp
qed

lemma norm_v_nonneg: "0 \<le> norm_v p"
  by (simp add: norm_v_def)

text \<open>
  C2: for every relative point \<open>p\<close> and camera height \<open>h\<close> the projection is the pair of the
  vertical angle \<open>atan2 h (planarDistance p)\<close>, with the Euclidean norm as planar distance, and
  the horizontal angle \<open>bearing p\<close>, the polar angle of \<open>p\<close>. Both are angles in radians: the
  vertical angle lies in \<open>[-\<pi>/2, \<pi>/2]\<close> and has the tangent \<open>h / planarDistance p\<close> (stated
  without the division), the horizontal angle lies in \<open>(-\<pi>, \<pi>]\<close> and gives \<open>p\<close> back in
  polar form.
\<close>

theorem spherical_point_projection:
  "getSphericalCoordinatesForPointObservation p h =
     Vector2d (atan2 h (planarDistance_spec p)) (bearing_spec p) \<and>
   planarDistance_spec p = sqrt ((vx p)\<^sup>2 + (vy p)\<^sup>2) \<and>
   - (pi / 2) \<le> vx (getSphericalCoordinatesForPointObservation p h) \<and>
   vx (getSphericalCoordinatesForPointObservation p h) \<le> pi / 2 \<and>
   planarDistance_spec p * sin (vx (getSphericalCoordinatesForPointObservation p h)) =
     h * cos (vx (getSphericalCoordinatesForPointObservation p h)) \<and>
   - pi < vy (getSphericalCoordinatesForPointObservation p h) \<and>
   vy (getSphericalCoordinatesForPointObservation p h) \<le> pi \<and>
   vx p = planarDistance_spec p * cos (vy (getSphericalCoordinatesForPointObservation p h)) \<and>
   vy p = planarDistance_spec p * sin (vy (getSphericalCoordinatesForPointObservation p h))"
proof -
  let ?d = "norm_v p"
  let ?v = "atan2 h ?d"
  let ?a = "atan2 (vy p) (vx p)"
  have d: "planarDistance_spec p = ?d"
    by (simp add: planarDistance_spec_def norm_v_def cmod_def)
  have g: "getSphericalCoordinatesForPointObservation p h = Vector2d ?v ?a"
    by (simp add: getSphericalCoordinatesForPointObservation_def angle_v_def)
  have b: "bearing_spec p = ?a"
    by (simp add: bearing_spec_def atan2_Arg)
  have vr: "- (pi / 2) \<le> ?v \<and> ?v \<le> pi / 2"
    using atan2_right_half_plane [OF norm_v_nonneg] .
  have c: "sqrt (?d\<^sup>2 + h\<^sup>2) * cos ?v = ?d"
    by (rule atan2_cos)
  have s: "sqrt (?d\<^sup>2 + h\<^sup>2) * sin ?v = h"
    by (rule atan2_sin)
  have "?d * sin ?v = (sqrt (?d\<^sup>2 + h\<^sup>2) * cos ?v) * sin ?v"
    by (simp only: c)
  also have "\<dots> = (sqrt (?d\<^sup>2 + h\<^sup>2) * sin ?v) * cos ?v"
    by (simp only: mult_ac)
  also have "\<dots> = h * cos ?v"
    by (simp only: s)
  finally have vt: "?d * sin ?v = h * cos ?v" .
  have ar: "- pi < ?a \<and> ?a \<le> pi"
    by (rule atan2_range)
  have pc: "vx p = ?d * cos ?a" and ps: "vy p = ?d * sin ?a"
    using atan2_cos [of "vx p" "vy p"] atan2_sin [of "vx p" "vy p"]
    by (simp_all add: norm_v_def)
  show ?thesis
    unfolding g d b using vr vt ar pc ps by (simp add: norm_v_def)
qed

section \<open>The spherical observation model: lines and poses\<close>

lemma pointInRelativeCoords_spec:
  "pointInRelativeCoords pose_arg p = relativeToPose_spec pose_arg p"
  by (simp add: pointInRelativeCoords_def relativeToPose_spec_def translate_spec_def
      cast_double_def minus_v_def plus_v_def uminus_v_def)

lemma rotation_undone:
  fixes c s X Y :: real
  assumes "c * c + s * s = 1"
  shows "c * (c * X + s * Y) - s * (c * Y - s * X) = X"
    and "s * (c * X + s * Y) + c * (c * Y - s * X) = Y"
proof -
  have "c * (c * X + s * Y) - s * (c * Y - s * X) = (c * c + s * s) * X"
    by (simp add: algebra_simps)
  then show "c * (c * X + s * Y) - s * (c * Y - s * X) = X"
    using assms by simp
  have "s * (c * X + s * Y) + c * (c * Y - s * X) = (c * c + s * s) * Y"
    by (simp add: algebra_simps)
  then show "s * (c * X + s * Y) + c * (c * Y - s * X) = Y"
    using assms by simp
qed

lemma rotate_v_inverse: "rotate_v a (rotate_v (- a) p) = p"
proof (cases p)
  case (Vector2d X Y)
  have one: "cos a * cos a + sin a * sin a = 1"
    using sin_cos_squared_add2 [of a] by (simp add: power2_eq_square)
  have r: "rotate_v (- a) p = Vector2d (cos a * X + sin a * Y) (cos a * Y - sin a * X)"
    by (simp add: rotate_v_def Vector2d)
  show ?thesis
    unfolding r using rotation_undone [OF one, of X Y]
    by (simp add: rotate_v_def Vector2d)
qed

text \<open>
  C3: the projection of a field line projects its start point and its end point, each on its
  own and with the line's camera height, and hands the camera height on unchanged; for a line
  in absolute coordinates and a candidate pose it is the projection of the line whose endpoints
  are first translated by the negative pose position and then rotated by the negative pose
  heading.
\<close>

theorem spherical_line_projection:
  "fl_start (getSphericalCoordinatesForPointObservation_line l) =
     getSphericalCoordinatesForPointObservation (fl_start l) (cameraHeight l) \<and>
   fl_end (getSphericalCoordinatesForPointObservation_line l) =
     getSphericalCoordinatesForPointObservation (fl_end l) (cameraHeight l) \<and>
   cameraHeight (getSphericalCoordinatesForPointObservation_line l) = cameraHeight l \<and>
   cameraHeight (getSphericalCoordinatesForPointObservation_pose_line pose_arg l) =
     cameraHeight l \<and>
   getSphericalCoordinatesForPointObservation_pose pose_arg p h =
     getSphericalCoordinatesForPointObservation (relativeToPose_spec pose_arg p) h \<and>
   getSphericalCoordinatesForPointObservation_pose_line pose_arg l =
     getSphericalCoordinatesForPointObservation_line
       (mapEndpoints_spec (relativeToPose_spec pose_arg) l)"
  by (simp add: getSphericalCoordinatesForPointObservation_line_def
      getSphericalCoordinatesForPointObservation_pose_line_def
      getSphericalCoordinatesForPointObservation_pose_def
      mapEndpoints_spec_def pointInRelativeCoords_spec)

text \<open>
  C6: for every pose and every point, expressing the point relative to the pose (as the pose
  overload of the projection does: subtract the pose position, rotate by the negative heading)
  and then rotating by the pose heading and translating by the pose position gives the point
  back, over the reals; so both endpoints of a line come back.
\<close>

theorem pose_projection_round_trip:
  "inversePose_spec pose_arg (pointInRelativeCoords pose_arg p) = p \<and>
   mapEndpoints_spec (inversePose_spec pose_arg)
     (mapEndpoints_spec (pointInRelativeCoords pose_arg) l) = l"
proof -
  have pt: "inversePose_spec pose_arg (pointInRelativeCoords pose_arg q) = q" for q
    by (cases q)
       (simp add: inversePose_spec_def pointInRelativeCoords_def rotate_v_inverse
          translate_spec_def plus_v_def minus_v_def cast_double_def)
  show ?thesis
    by (simp add: pt mapEndpoints_spec_def)
qed

section \<open>Properties of the correspondence search\<close>

lemma candidates_empty: "candidates 0 m = []" "candidates n 0 = []"
  by (simp_all add: candidates_def)

text \<open>The three cases of one round of the search.\<close>

lemma greedyAssign_None:
  "bestCandidate score cands = None \<Longrightarrow> greedyAssign thr score cands = []"
  by (subst greedyAssign.simps) simp

lemma greedyAssign_accept:
  "bestCandidate score cands = Some c \<Longrightarrow> thr < score (fst c) (snd c) \<Longrightarrow>
   greedyAssign thr score cands =
     c # greedyAssign thr score (filter (\<lambda>d. fst d \<noteq> fst c \<and> snd d \<noteq> snd c) cands)"
  by (subst greedyAssign.simps) simp

lemma greedyAssign_reject:
  "bestCandidate score cands = Some c \<Longrightarrow> \<not> thr < score (fst c) (snd c) \<Longrightarrow>
   greedyAssign thr score cands = []"
  by (subst greedyAssign.simps) simp

text \<open>
  Without observations or without map lines the search accepts nothing (section 4.2, "returns
  an empty correspondence set").
\<close>

lemma getCorrespondences_nothing_to_match:
  assumes "observations s = [] \<or> observationsSphericalCoords s = [] \<or> fieldLines s = []"
  shows "getCorrespondencesForLocalizationHypothesis lik s pose_arg cov thr prec out w r =
     (False, [])"
proof -
  have "candidates (length (take maxNumberOfLineObservations
        (zip (observations s) (observationsSphericalCoords s))))
      (length (fieldLines s)) = []"
    using assms by (auto simp: candidates_empty)
  then show ?thesis
    by (simp add: getCorrespondencesForLocalizationHypothesis_def Let_def greedyAssign_None)
qed

text \<open>Every accepted pair exceeds the threshold.\<close>

lemma greedyAssign_above_threshold:
  "c \<in> set (greedyAssign thr score cands) \<Longrightarrow> thr < score (fst c) (snd c)"
proof (induction thr score cands rule: greedyAssign.induct)
  case (1 thr score cands)
  show ?case
  proof (cases "bestCandidate score cands")
    case None
    with "1.prems" show ?thesis by (simp add: greedyAssign_None)
  next
    case (Some b)
    show ?thesis
    proof (cases "thr < score (fst b) (snd b)")
      case True
      with Some "1.prems" "1.IH" [OF Some True] show ?thesis
        by (auto simp: greedyAssign_accept)
    next
      case False
      with Some "1.prems" show ?thesis by (simp add: greedyAssign_reject)
    qed
  qed
qed

text \<open>
  With a higher threshold the search accepts an initial part of what it accepts with a lower
  one.
\<close>

lemma greedyAssign_threshold_mono:
  "t1 \<le> t2 \<Longrightarrow> \<exists>rest. greedyAssign t1 score cands = greedyAssign t2 score cands @ rest"
proof (induction t1 score cands rule: greedyAssign.induct)
  case (1 t1 score cands)
  show ?case
  proof (cases "bestCandidate score cands")
    case None
    then show ?thesis by (simp add: greedyAssign_None)
  next
    case (Some b)
    show ?thesis
    proof (cases "t2 < score (fst b) (snd b)")
      case True
      with "1.prems" have low: "t1 < score (fst b) (snd b)" by simp
      from "1.IH" [OF Some low "1.prems"] show ?thesis
        by (simp add: greedyAssign_accept [OF Some True] greedyAssign_accept [OF Some low])
    next
      case False
      then show ?thesis by (simp add: greedyAssign_reject [OF Some False])
    qed
  qed
qed

text \<open>
  The accepted pairs are remaining candidates, and no observation is matched twice: the search
  yields an assignment, of at most as many pairs as there are observations.
\<close>

lemma bestCandidate_member:
  "bestCandidate score cands = Some c \<Longrightarrow> c \<in> set cands"
  by (induction cands arbitrary: c) (auto split: option.splits if_splits)

lemma greedyAssign_subset:
  "set (greedyAssign thr score cands) \<subseteq> set cands"
proof (induction thr score cands rule: greedyAssign.induct)
  case (1 thr score cands)
  show ?case
  proof (cases "bestCandidate score cands")
    case None
    then show ?thesis by (simp add: greedyAssign_None)
  next
    case (Some b)
    show ?thesis
    proof (cases "thr < score (fst b) (snd b)")
      case True
      from "1.IH" [OF Some True] bestCandidate_member [OF Some] show ?thesis
        by (auto simp: greedyAssign_accept [OF Some True])
    next
      case False
      then show ?thesis by (simp add: greedyAssign_reject [OF Some False])
    qed
  qed
qed

lemma greedyAssign_distinct:
  "distinct (map fst (greedyAssign thr score cands)) \<and>
   distinct (map snd (greedyAssign thr score cands))"
proof (induction thr score cands rule: greedyAssign.induct)
  case (1 thr score cands)
  show ?case
  proof (cases "bestCandidate score cands")
    case None
    then show ?thesis by (simp add: greedyAssign_None)
  next
    case (Some b)
    show ?thesis
    proof (cases "thr < score (fst b) (snd b)")
      case True
      let ?rest = "filter (\<lambda>d. fst d \<noteq> fst b \<and> snd d \<noteq> snd b) cands"
      have "set (greedyAssign thr score ?rest) \<subseteq> set ?rest"
        by (rule greedyAssign_subset)
      then have "fst b \<notin> fst ` set (greedyAssign thr score ?rest)"
        and "snd b \<notin> snd ` set (greedyAssign thr score ?rest)"
        by auto
      with "1.IH" [OF Some True] show ?thesis
        by (simp add: greedyAssign_accept [OF Some True])
    next
      case False
      then show ?thesis by (simp add: greedyAssign_reject [OF Some False])
    qed
  qed
qed

lemma candidates_set: "set (candidates n m) = {0..<n} \<times> {0..<m}"
  by (auto simp: candidates_def)

lemma greedyAssign_candidates_length:
  "length (greedyAssign thr score (candidates n m)) \<le> n"
proof -
  let ?acc = "greedyAssign thr score (candidates n m)"
  have "distinct (map fst ?acc)"
    using greedyAssign_distinct by blast
  then have "length ?acc = card (fst ` set ?acc)"
    by (metis distinct_card length_map set_map)
  also have "fst ` set ?acc \<subseteq> {0..<n}"
    using greedyAssign_subset [of thr score "candidates n m"]
    by (auto simp: candidates_set)
  then have "card (fst ` set ?acc) \<le> card {0..<n}"
    by (intro card_mono) simp_all
  finally show ?thesis by simp
qed

text \<open>
  The capacity bound of the specification: the search never returns more than
  \<open>maxNumberOfLineObservations\<close> correspondences, however many observations the frame holds.
\<close>

lemma getCorrespondences_capacity:
  "length (snd (getCorrespondencesForLocalizationHypothesis lik s pose_arg cov thr prec
     out w r)) \<le> maxNumberOfLineObservations"
proof -
  let ?cached = "take maxNumberOfLineObservations
    (zip (observations s) (observationsSphericalCoords s))"
  have "length (snd (getCorrespondencesForLocalizationHypothesis lik s pose_arg cov thr prec
     out w r)) \<le> length ?cached"
    by (simp add: getCorrespondencesForLocalizationHypothesis_def Let_def
        greedyAssign_candidates_length del: length_take)
  also have "\<dots> \<le> maxNumberOfLineObservations"
    by simp
  finally show ?thesis .
qed

lemma greedyAssign_length_mono:
  assumes "t1 \<le> t2"
  shows "length (greedyAssign t2 score cands) \<le> length (greedyAssign t1 score cands)"
proof -
  obtain rest where "greedyAssign t1 score cands = greedyAssign t2 score cands @ rest"
    using greedyAssign_threshold_mono [OF assms] by blast
  then show ?thesis by simp
qed

text \<open>The search on the example frame, with the thresholds 1/4 and 3/4.\<close>

lemma example_candidates: "candidates 2 2 = [(0, 0), (0, 1), (1, 0), (1, 1)]"
  by (simp add: candidates_def numeral_2_eq_2)

lemma example_scores:
  fixes cov prec
  defines "sc \<equiv> scoreTable example_likelihood example_pose cov prec
     (map snd (take maxNumberOfLineObservations
        (zip (observations example_frame) (observationsSphericalCoords example_frame))))
     (fieldLines example_frame)"
  shows "sc 0 0 = 1" "sc 0 (Suc 0) = 1 / 5" "sc (Suc 0) 0 = 1 / 2" "sc (Suc 0) (Suc 0) = 1 / 2"
  by (simp_all add: sc_def scoreTable_def correspondenceLikelihood_def example_likelihood_def
      swapEndpoints_def example_frame_def calculateObservationsSphericalCoords_def
      maxNumberOfLineObservations_def
      FieldLine_ctor_def getSphericalCoordinatesForPointObservation_line_def
      getSphericalCoordinatesForPointObservation_pose_line_def)

lemma example_run:
  fixes cov prec out w r
  shows "getCorrespondencesForLocalizationHypothesis example_likelihood example_frame
           example_pose cov (1 / 4) prec out w r =
         (True,
          [(FieldLine_ctor (Vector2d 1 1) (Vector2d 2 1) 1,
            FieldLine_ctor (Vector2d 0 0) (Vector2d 1 0) 1),
           (FieldLine_ctor (Vector2d 1 1) (Vector2d 1 2) 2,
            FieldLine_ctor (Vector2d 0 0) (Vector2d 0 1) 3)])"
    and "getCorrespondencesForLocalizationHypothesis example_likelihood example_frame
           example_pose cov (3 / 4) prec out w r =
         (True,
          [(FieldLine_ctor (Vector2d 1 1) (Vector2d 2 1) 1,
            FieldLine_ctor (Vector2d 0 0) (Vector2d 1 0) 1)])"
proof -
  let ?cached = "take maxNumberOfLineObservations
    (zip (observations example_frame) (observationsSphericalCoords example_frame))"
  let ?sc = "scoreTable example_likelihood example_pose cov prec (map snd ?cached)
     (fieldLines example_frame)"
  note sc = example_scores [of cov prec]
  have len: "length ?cached = 2" "length (fieldLines example_frame) = 2"
    by (simp_all add: example_frame_def calculateObservationsSphericalCoords_def
        maxNumberOfLineObservations_def)
  have b1: "bestCandidate ?sc [(0, 0), (0, 1), (1, 0), (1, 1)] = Some (0, 0)"
    by (simp add: sc)
  have f1: "filter (\<lambda>d. fst d \<noteq> fst (0::nat, 0::nat) \<and> snd d \<noteq> snd (0::nat, 0::nat))
      [(0, 0), (0, 1), (1, 0), (1, 1)] = [(1, 1)]"
    by simp
  have b2: "bestCandidate ?sc [(1, 1)] = Some (1, 1)"
    by simp
  have f2: "filter (\<lambda>d. fst d \<noteq> fst (1::nat, 1::nat) \<and> snd d \<noteq> snd (1::nat, 1::nat))
      [(1, 1)] = []"
    by simp
  have e: "greedyAssign t ?sc [] = []" for t
    by (simp add: greedyAssign_None)
  have a1: "greedyAssign (1 / 4) ?sc [(0, 0), (0, 1), (1, 0), (1, 1)] =
      (0, 0) # greedyAssign (1 / 4) ?sc
        (filter (\<lambda>d. fst d \<noteq> fst (0::nat, 0::nat) \<and> snd d \<noteq> snd (0::nat, 0::nat))
           [(0, 0), (0, 1), (1, 0), (1, 1)])"
    by (rule greedyAssign_accept [OF b1]) (simp add: sc)
  have a2: "greedyAssign (1 / 4) ?sc [(1, 1)] =
      (1, 1) # greedyAssign (1 / 4) ?sc
        (filter (\<lambda>d. fst d \<noteq> fst (1::nat, 1::nat) \<and> snd d \<noteq> snd (1::nat, 1::nat)) [(1, 1)])"
    by (rule greedyAssign_accept [OF b2]) (simp add: sc)
  have low: "greedyAssign (1 / 4) ?sc [(0, 0), (0, 1), (1, 0), (1, 1)] = [(0, 0), (1, 1)]"
    by (simp only: a1 f1 a2 f2 e)
  have a3: "greedyAssign (3 / 4) ?sc [(0, 0), (0, 1), (1, 0), (1, 1)] =
      (0, 0) # greedyAssign (3 / 4) ?sc
        (filter (\<lambda>d. fst d \<noteq> fst (0::nat, 0::nat) \<and> snd d \<noteq> snd (0::nat, 0::nat))
           [(0, 0), (0, 1), (1, 0), (1, 1)])"
    by (rule greedyAssign_accept [OF b1]) (simp add: sc)
  have a4: "greedyAssign (3 / 4) ?sc [(1, 1)] = []"
    by (rule greedyAssign_reject [OF b2]) (simp add: sc)
  have high: "greedyAssign (3 / 4) ?sc [(0, 0), (0, 1), (1, 0), (1, 1)] = [(0, 0)]"
    by (simp only: a3 f1 a4)
  have obs: "fieldLines example_frame = [FieldLine_ctor (Vector2d 0 0) (Vector2d 1 0) 1,
                    FieldLine_ctor (Vector2d 0 0) (Vector2d 0 1) 3]"
    by (simp add: example_frame_def calculateObservationsSphericalCoords_def)
  have c0: "fst (?cached ! 0) = FieldLine_ctor (Vector2d 1 1) (Vector2d 2 1) 1"
    and c1: "fst (?cached ! Suc 0) = FieldLine_ctor (Vector2d 1 1) (Vector2d 1 2) 2"
    by (simp_all add: example_frame_def calculateObservationsSphericalCoords_def
        maxNumberOfLineObservations_def)
  show "getCorrespondencesForLocalizationHypothesis example_likelihood example_frame
           example_pose cov (1 / 4) prec out w r =
         (True,
          [(FieldLine_ctor (Vector2d 1 1) (Vector2d 2 1) 1,
            FieldLine_ctor (Vector2d 0 0) (Vector2d 1 0) 1),
           (FieldLine_ctor (Vector2d 1 1) (Vector2d 1 2) 2,
            FieldLine_ctor (Vector2d 0 0) (Vector2d 0 1) 3)])"
    unfolding getCorrespondencesForLocalizationHypothesis_def Let_def len example_candidates low
    by (simp add: c0 c1 obs)
  show "getCorrespondencesForLocalizationHypothesis example_likelihood example_frame
           example_pose cov (3 / 4) prec out w r =
         (True,
          [(FieldLine_ctor (Vector2d 1 1) (Vector2d 2 1) 1,
            FieldLine_ctor (Vector2d 0 0) (Vector2d 1 0) 1)])"
    unfolding getCorrespondencesForLocalizationHypothesis_def Let_def len example_candidates high
    by (simp add: c0 obs)
qed

text \<open>
  C7: for fixed observations, map lines, candidate pose, pose covariance and measurement
  precision matrix, and thresholds \<open>t1 \<le> t2\<close>, the search accepts at most as many
  correspondences with the threshold \<open>t2\<close> as with \<open>t1\<close>; and when it reports a match with
  \<open>t2\<close> it reports one with \<open>t1\<close>.
\<close>

theorem threshold_monotonicity:
  assumes "t1 \<le> t2"
  shows "length (snd (getCorrespondencesForLocalizationHypothesis lik s pose_arg cov t2 prec
            out2 w2 r2)) \<le>
         length (snd (getCorrespondencesForLocalizationHypothesis lik s pose_arg cov t1 prec
            out1 w1 r1)) \<and>
         (fst (getCorrespondencesForLocalizationHypothesis lik s pose_arg cov t2 prec
            out2 w2 r2) \<longrightarrow>
          fst (getCorrespondencesForLocalizationHypothesis lik s pose_arg cov t1 prec
            out1 w1 r1))"
proof -
  let ?cached = "take maxNumberOfLineObservations
    (zip (observations s) (observationsSphericalCoords s))"
  let ?score = "scoreTable lik pose_arg cov prec (map snd ?cached) (fieldLines s)"
  let ?cands = "candidates (length ?cached) (length (fieldLines s))"
  have len: "length (greedyAssign t2 ?score ?cands) \<le> length (greedyAssign t1 ?score ?cands)"
    using greedyAssign_length_mono [OF assms] .
  then have "greedyAssign t2 ?score ?cands \<noteq> [] \<longrightarrow> greedyAssign t1 ?score ?cands \<noteq> []"
    by auto
  with len show ?thesis
    by (simp add: getCorrespondencesForLocalizationHypothesis_def Let_def)
qed

theorem threshold_monotonicity_witness:
  "(1 / 4 :: real) \<le> 3 / 4 \<and>
   length (snd (getCorrespondencesForLocalizationHypothesis example_likelihood example_frame
     example_pose (\<lambda>i j. 0) (3 / 4) (\<lambda>i j. 0) [] False True)) \<le>
   length (snd (getCorrespondencesForLocalizationHypothesis example_likelihood example_frame
     example_pose (\<lambda>i j. 0) (1 / 4) (\<lambda>i j. 0) [] False True)) \<and>
   length (snd (getCorrespondencesForLocalizationHypothesis example_likelihood example_frame
     example_pose (\<lambda>i j. 0) (3 / 4) (\<lambda>i j. 0) [] False True)) = 1 \<and>
   length (snd (getCorrespondencesForLocalizationHypothesis example_likelihood example_frame
     example_pose (\<lambda>i j. 0) (1 / 4) (\<lambda>i j. 0) [] False True)) = 2"
proof -
  have le: "(1 / 4 :: real) \<le> 3 / 4"
    by simp
  show ?thesis
    using le
      threshold_monotonicity [OF le, of example_likelihood example_frame example_pose
        "\<lambda>i j. 0" "\<lambda>i j. 0" "[]" False True "[]" False True]
      example_run [of "\<lambda>i j. 0" "\<lambda>i j. 0" "[]" False True]
    by simp
qed

end
